theory Spec2Isabelle
  imports Complex_Main "HOL-Library.Word"
begin

section \<open>The mining core of src/shitcoin/miner.py\<close>

text \<open>
  The miner is one Python class, \<^verbatim>\<open>Miner\<close>, used from two threads: the control side
  (\<^verbatim>\<open>start_mining\<close>, \<^verbatim>\<open>stop_mining\<close>, \<^verbatim>\<open>get_hashrate\<close>, \<^verbatim>\<open>get_mined_block\<close>,
  \<^verbatim>\<open>retarget\<close>) and the hashing thread (\<^verbatim>\<open>mine\<close>). Every method is embedded as a
  function on an explicit record of the object's fields. The hashing thread is a step
  function over its program points: one step is one critical section (\<^verbatim>\<open>with self.lock\<close>),
  one read of an event, or a run of code that touches only the thread's local variables,
  so the calls of the control side may be interleaved between any two steps.

  Exceptions are values: every operation returns \<open>Inl\<close> of the exception or \<open>Inr\<close> of
  its result. The readings of \<^verbatim>\<open>os.urandom\<close> and \<^verbatim>\<open>time.time\<close> are arguments.
\<close>

subsection \<open>Data\<close>

type_synonym bytes = "8 word list"

datatype error =
    MinerIsRunningException
  | MinerIsNotRunningException
  | ValueError
  | StructError
  | ZeroDivisionError
  | AttributeError

text \<open>\<^verbatim>\<open>Output(reward, self.pubkey)\<close>, \<^verbatim>\<open>Input()\<close> with its \<^verbatim>\<open>index\<close>, and
  \<^verbatim>\<open>Transaction()\<close> with its \<^verbatim>\<open>inputs\<close> and \<^verbatim>\<open>outputs\<close>. The classes are imported
  from modules outside src/; only the fields the miner reads or writes are kept. The
  back reference \<^verbatim>\<open>coinbase_out.block = blk\<close> is a pointer to the enclosing block and
  has no counterpart in a value.\<close>

record tx_output =
  amount :: int
  out_pubkey :: bytes

record tx_input =
  index :: int

record transaction =
  inputs :: "tx_input list"
  outputs :: "tx_output list"

text \<open>The fields of \<^verbatim>\<open>Block\<close> that \<^verbatim>\<open>retarget\<close> and \<^verbatim>\<open>mine\<close> touch. The chain head
  is a value of the chain service, of an arbitrary type \<open>'h\<close>.\<close>

record 'h block =
  parent :: "'h option"
  prev_hash :: bytes
  timestamp :: int
  diff :: int
  txs :: "transaction list"
  merkle_root :: bytes
  nonce :: int

datatype callback = Retarget_callback

record 'h blockchain =
  chain_head :: 'h
  new_block_callbacks :: "callback list"

text \<open>\<^verbatim>\<open>Mempool.transactions\<close> is a dictionary; its \<^verbatim>\<open>values()\<close> come in
  insertion order, so it is an association list here.\<close>

record mempool_state =
  transactions :: "(bytes \<times> transaction) list"
  total_fees :: int
  new_tx_callbacks :: "callback list"

datatype thread = Miner_thread

text \<open>The fields of \<^verbatim>\<open>Miner\<close> set by \<^verbatim>\<open>__init__\<close>. \<^verbatim>\<open>hashrate\<close> is a Python float;
  it is a real number here, as are the readings of the clock: no property below depends
  on its value.\<close>

record 'h miner =
  blockchain :: "'h blockchain"
  mempool :: mempool_state
  pubkey :: bytes
  reduce_local_diff :: bool
  mining_thread :: "thread option"
  target_block :: "'h block option"
  hashrate :: real
  mined_block :: "'h block option"
  stop_event :: bool
  retarget_event :: bool

text \<open>The collaborators imported from modules that are not under src/: the constants
  of \<^verbatim>\<open>settings\<close> and \<^verbatim>\<open>crypto\<close>, the hash function \<^verbatim>\<open>crypto.h\<close>,
  \<^verbatim>\<open>validation.get_next_diff\<close> and the methods of \<^verbatim>\<open>Block\<close> whose results the miner
  only passes on. They are parameters. A digest length, a block height and the halving
  interval are counts, so they are natural numbers.\<close>

record 'h collab =
  HASH_LEN :: nat
  INITIAL_REWARD :: int
  REWARD_HALVING_LEN :: nat
  crypto_h :: "bytes \<Rightarrow> bytes"
  get_next_diff :: "'h \<Rightarrow> int"
  get_hash :: "'h \<Rightarrow> bytes"
  get_height :: "'h block \<Rightarrow> nat"
  serialize_header :: "'h block \<Rightarrow> bytes"
  compute_merkle_root :: "transaction list \<Rightarrow> bytes"

subsection \<open>Python primitives\<close>

text \<open>\<^verbatim>\<open>int.from_bytes(bs, byteorder='big')\<close>.\<close>

definition int_from_bytes_big :: "bytes \<Rightarrow> int" where
  "int_from_bytes_big bs = foldl (\<lambda>acc b. acc * 256 + uint b) 0 bs"

text \<open>The \<open>k\<close> low bytes of \<open>n\<close>, most significant first.\<close>

fun to_bytes_big :: "nat \<Rightarrow> int \<Rightarrow> bytes" where
  "to_bytes_big 0 n = []"
| "to_bytes_big (Suc k) n = to_bytes_big k (n div 256) @ [word_of_int n]"

text \<open>\<^verbatim>\<open>struct.pack('>Q', n)\<close>: eight bytes, big-endian; a value outside
  \<open>0 .. 2^64 - 1\<close> raises \<^verbatim>\<open>struct.error\<close>.\<close>

definition struct_pack_Q :: "int \<Rightarrow> error + bytes" where
  "struct_pack_Q n =
     (if 0 \<le> n \<and> n < 2 ^ 64 then Inr (to_bytes_big 8 n) else Inl StructError)"

text \<open>\<^verbatim>\<open>1 << k\<close> on Python integers: a negative shift count raises \<^verbatim>\<open>ValueError\<close>.\<close>

definition shift_one_left :: "int \<Rightarrow> error + int" where
  "shift_one_left k = (if k < 0 then Inl ValueError else Inr (2 ^ nat k))"

text \<open>\<^verbatim>\<open>int(x)\<close> on a float: the fraction is cut off, towards zero.\<close>

definition int_of_float :: "real \<Rightarrow> int" where
  "int_of_float x = (if 0 \<le> x then \<lfloor>x\<rfloor> else \<lceil>x\<rceil>)"

text \<open>\<^verbatim>\<open>bs[:-8]\<close>.\<close>

definition drop_last8 :: "bytes \<Rightarrow> bytes" where
  "drop_last8 bs = take (length bs - 8) bs"

subsection \<open>Collaborators that change a block or a registry\<close>

text \<open>Modelled from the spec: \<^verbatim>\<open>Block()\<close>, \<^verbatim>\<open>Block.set_parent\<close>,
  \<^verbatim>\<open>Block.add_transactions\<close> and \<^verbatim>\<open>Block.update_merkle_root\<close> are not under src/.
  A fresh block has no transactions; \<^verbatim>\<open>add_transactions\<close> "appends all
  currently-pending transactions in an externally-supplied order"; the merkle root is
  recomputed "over the final transaction list".\<close>

definition Block_new :: "'h block" where
  "Block_new = \<lparr>parent = None, prev_hash = [], timestamp = 0, diff = 0, txs = [],
                merkle_root = [], nonce = 0\<rparr>"

definition set_parent :: "'h block \<Rightarrow> 'h \<Rightarrow> 'h block" where
  "set_parent blk hd0 = blk\<lparr>parent := Some hd0\<rparr>"

definition add_transactions :: "'h block \<Rightarrow> transaction list \<Rightarrow> 'h block" where
  "add_transactions blk ts = blk\<lparr>txs := txs blk @ ts\<rparr>"

definition update_merkle_root :: "'h collab \<Rightarrow> 'h block \<Rightarrow> 'h block" where
  "update_merkle_root e blk = blk\<lparr>merkle_root := compute_merkle_root e (txs blk)\<rparr>"

text \<open>Modelled from the spec: the registries of the chain service and of the mempool
  are not under src/. Registering adds the listener, unregistering removes it.\<close>

definition register_new_block_callback :: "'h blockchain \<Rightarrow> callback \<Rightarrow> 'h blockchain" where
  "register_new_block_callback bc cb = bc\<lparr>new_block_callbacks := new_block_callbacks bc @ [cb]\<rparr>"

definition unregister_new_block_callback :: "'h blockchain \<Rightarrow> callback \<Rightarrow> 'h blockchain" where
  "unregister_new_block_callback bc cb = bc\<lparr>new_block_callbacks := remove1 cb (new_block_callbacks bc)\<rparr>"

definition register_new_tx_callback :: "mempool_state \<Rightarrow> callback \<Rightarrow> mempool_state" where
  "register_new_tx_callback mp cb = mp\<lparr>new_tx_callbacks := new_tx_callbacks mp @ [cb]\<rparr>"

definition unregister_new_tx_callback :: "mempool_state \<Rightarrow> callback \<Rightarrow> mempool_state" where
  "unregister_new_tx_callback mp cb = mp\<lparr>new_tx_callbacks := remove1 cb (new_tx_callbacks mp)\<rparr>"

subsection \<open>The control side\<close>

text \<open>\<^verbatim>\<open>Miner.__init__\<close>.\<close>

definition Miner_init :: "'h blockchain \<Rightarrow> mempool_state \<Rightarrow> bytes \<Rightarrow> bool \<Rightarrow> 'h miner" where
  "Miner_init bc mp pk rld =
     \<lparr>blockchain = bc, mempool = mp, pubkey = pk, reduce_local_diff = rld,
      mining_thread = None, target_block = None, hashrate = 0, mined_block = None,
      stop_event = False, retarget_event = False\<rparr>"

text \<open>The reward of lines 181-183:
  \<^verbatim>\<open>INITIAL_REWARD // (2 ** (blk.get_height() // REWARD_HALVING_LEN)) + total_fees\<close>.
  Division by a zero halving interval raises.\<close>

definition block_reward :: "'h collab \<Rightarrow> nat \<Rightarrow> int \<Rightarrow> error + int" where
  "block_reward e height fees =
     (if REWARD_HALVING_LEN e = 0 then Inl ZeroDivisionError
      else Inr (INITIAL_REWARD e div 2 ^ (height div REWARD_HALVING_LEN e) + fees))"

text \<open>The block that \<^verbatim>\<open>retarget\<close> builds before it adds the coinbase (lines 173-178).\<close>

definition candidate_body :: "'h collab \<Rightarrow> real \<Rightarrow> 'h miner \<Rightarrow> 'h block" where
  "candidate_body e now s =
     (let blockchain_head = chain_head (blockchain s);
          blk = Block_new;
          blk = set_parent blk blockchain_head;
          blk = blk\<lparr>prev_hash := get_hash e blockchain_head\<rparr>;
          blk = blk\<lparr>timestamp := int_of_float now\<rparr>;
          blk = blk\<lparr>diff := get_next_diff e blockchain_head\<rparr>
      in add_transactions blk (map snd (transactions (mempool s))))"

text \<open>The coinbase transaction of lines 184-190; \<open>rnd\<close> is \<^verbatim>\<open>urandom(4)\<close>.\<close>

definition coinbase_tx :: "int \<Rightarrow> bytes \<Rightarrow> bytes \<Rightarrow> transaction" where
  "coinbase_tx reward pk rnd =
     (let coinbase_out = \<lparr>amount = reward, out_pubkey = pk\<rparr>;
          coinbase_inp = \<lparr>index = int_from_bytes_big rnd\<rparr>
      in \<lparr>inputs = [coinbase_inp], outputs = [coinbase_out]\<rparr>)"

text \<open>\<^verbatim>\<open>Miner.retarget\<close>; \<open>now\<close> is \<^verbatim>\<open>time.time()\<close>.\<close>

definition retarget :: "'h collab \<Rightarrow> real \<Rightarrow> bytes \<Rightarrow> 'h miner \<Rightarrow> (error + unit) \<times> 'h miner" where
  "retarget e now rnd s =
     (let blk = candidate_body e now s
      in case block_reward e (get_height e blk) (total_fees (mempool s)) of
           Inl err \<Rightarrow> (Inl err, s)
         | Inr reward \<Rightarrow>
             (let coinbase = coinbase_tx reward (pubkey s) rnd;
                  blk = blk\<lparr>txs := txs blk @ [coinbase]\<rparr>;
                  blk = update_merkle_root e blk
              in (Inr (), s\<lparr>target_block := Some blk, retarget_event := True\<rparr>)))"

text \<open>\<^verbatim>\<open>Miner.start_mining\<close>.\<close>

definition start_mining :: "'h collab \<Rightarrow> real \<Rightarrow> bytes \<Rightarrow> 'h miner \<Rightarrow> (error + unit) \<times> 'h miner" where
  "start_mining e now rnd s =
     (if mining_thread s \<noteq> None then (Inl MinerIsRunningException, s)
      else
        (let s = s\<lparr>blockchain := register_new_block_callback (blockchain s) Retarget_callback\<rparr>;
             s = s\<lparr>mempool := register_new_tx_callback (mempool s) Retarget_callback\<rparr>;
             s = s\<lparr>stop_event := False\<rparr>;
             s = s\<lparr>retarget_event := False\<rparr>
         in case retarget e now rnd s of
              (Inl err, s) \<Rightarrow> (Inl err, s)
            | (Inr u, s) \<Rightarrow> (Inr (), s\<lparr>mining_thread := Some Miner_thread\<rparr>)))"

text \<open>\<^verbatim>\<open>Miner.stop_mining\<close>. The bounded \<^verbatim>\<open>join(10)\<close> only waits and logs.\<close>

definition stop_mining :: "'h miner \<Rightarrow> (error + unit) \<times> 'h miner" where
  "stop_mining s =
     (if mining_thread s = None then (Inl MinerIsNotRunningException, s)
      else
        (let s = s\<lparr>blockchain := unregister_new_block_callback (blockchain s) Retarget_callback\<rparr>;
             s = s\<lparr>mempool := unregister_new_tx_callback (mempool s) Retarget_callback\<rparr>;
             s = s\<lparr>stop_event := True\<rparr>
         in (Inr (), s\<lparr>mining_thread := None\<rparr>)))"

text \<open>\<^verbatim>\<open>Miner.get_hashrate\<close>.\<close>

definition get_hashrate :: "'h miner \<Rightarrow> (error + real) \<times> 'h miner" where
  "get_hashrate s =
     (if mining_thread s = None then (Inl MinerIsNotRunningException, s)
      else (Inr (hashrate s), s))"

text \<open>\<^verbatim>\<open>Miner.get_mined_block\<close>.\<close>

definition get_mined_block :: "'h miner \<Rightarrow> 'h block option \<times> 'h miner" where
  "get_mined_block s = (let blk = mined_block s in (blk, s\<lparr>mined_block := None\<rparr>))"

text \<open>\<^verbatim>\<open>Miner.set_reward_address\<close>.\<close>

definition set_reward_address :: "bytes \<Rightarrow> 'h miner \<Rightarrow> 'h miner" where
  "set_reward_address pk s = s\<lparr>pubkey := pk\<rparr>"

subsection \<open>The hashing thread\<close>

text \<open>The threshold of lines 128-131:
  \<^verbatim>\<open>diff = target_block.diff\<close>, \<^verbatim>\<open>if self.reduce_local_diff: diff = max(diff - 10, 1)\<close>,
  \<^verbatim>\<open>target_hash = 1 << (8 * HASH_LEN - diff)\<close>.\<close>

definition effective_diff :: "bool \<Rightarrow> int \<Rightarrow> int" where
  "effective_diff rld d = (if rld then max (d - 10) 1 else d)"

definition compute_target_hash :: "'h collab \<Rightarrow> bool \<Rightarrow> 'h block \<Rightarrow> error + int" where
  "compute_target_hash e rld tb =
     (let d = diff tb;
          d = effective_diff rld d
      in shift_one_left (8 * int (HASH_LEN e) - d))"

text \<open>The digest of line 141 for one nonce, read as an integer as line 142 does.\<close>

definition digest_int :: "'h collab \<Rightarrow> bytes \<Rightarrow> bytes \<Rightarrow> int" where
  "digest_int e prefix nb = int_from_bytes_big (crypto_h e (prefix @ nb))"

text \<open>The \<^verbatim>\<open>for _ in range(100000)\<close> loop of lines 140-151, without the critical
  section of the hit: \<open>k\<close> is the number of iterations left, \<open>n\<close> the local \<^verbatim>\<open>nonce\<close>.
  \<open>Found n\<close> is the \<^verbatim>\<open>break\<close> at the winning nonce (which is not incremented),
  \<open>Exhausted n\<close> the end of the range with the nonce to try next.\<close>

datatype batch_result = Found int | Exhausted int

fun hash_batch :: "'h collab \<Rightarrow> bytes \<Rightarrow> int \<Rightarrow> nat \<Rightarrow> int \<Rightarrow> error + batch_result" where
  "hash_batch e prefix target_hash 0 n = Inr (Exhausted n)"
| "hash_batch e prefix target_hash (Suc k) n =
     (case struct_pack_Q n of
        Inl err \<Rightarrow> Inl err
      | Inr nb \<Rightarrow>
          if digest_int e prefix nb < target_hash then Inr (Found n)
          else hash_batch e prefix target_hash k (n + 1))"

text \<open>The program points of \<^verbatim>\<open>Miner.mine\<close> and its local variables.\<close>

datatype pc =
    Thread_start
  | Outer_loop
  | Wait_lock
  | Wait_stop_check
  | Loop_guard
  | Batch
  | Rate_write
  | Search_stop_check
  | Returned

record 'h worker =
  pc :: pc
  l_nonce :: int
  l_target_block :: "'h block option"
  l_prefix :: bytes
  l_target_hash :: int
  l_start_time :: real
  l_start_nonce :: int

text \<open>The thread as \<^verbatim>\<open>Thread(target=Miner.mine, ...).start()\<close> leaves it: at the
  first line of \<^verbatim>\<open>mine\<close>, no local variable assigned yet.\<close>

definition worker_spawn :: "'h worker" where
  "worker_spawn = \<lparr>pc = Thread_start, l_nonce = 0, l_target_block = None, l_prefix = [],
                   l_target_hash = 0, l_start_time = 0, l_start_nonce = 0\<rparr>"

text \<open>One step of \<^verbatim>\<open>Miner.mine\<close>; \<open>rnd\<close> is what \<^verbatim>\<open>urandom(4)\<close> returns and \<open>now\<close>
  what \<^verbatim>\<open>time.time()\<close> returns, should the step call them.
  \<^item> \<open>Thread_start\<close>: line 112.
  \<^item> \<open>Outer_loop\<close>: line 116.
  \<^item> \<open>Wait_lock\<close>: the critical section of lines 118-120.
  \<^item> \<open>Wait_stop_check\<close>: lines 121-122, the test of the inner \<^verbatim>\<open>while\<close> (line 117) and,
    once a target is there, lines 125-133.
  \<^item> \<open>Loop_guard\<close>: line 135.
  \<^item> \<open>Batch\<close>: lines 137-151, the critical section of the hit included.
  \<^item> \<open>Rate_write\<close>: lines 154-156.
  \<^item> \<open>Search_stop_check\<close>: lines 158-159.\<close>

definition mine_step ::
  "'h collab \<Rightarrow> bytes \<Rightarrow> real \<Rightarrow> 'h worker \<times> 'h miner \<Rightarrow> error + ('h worker \<times> 'h miner)" where
  "mine_step e rnd now c =
     (let w = fst c; s = snd c in
      case pc w of
        Thread_start \<Rightarrow> Inr (w\<lparr>pc := Outer_loop, l_nonce := int_from_bytes_big rnd\<rparr>, s)
      | Outer_loop \<Rightarrow> Inr (w\<lparr>pc := Wait_lock, l_target_block := None\<rparr>, s)
      | Wait_lock \<Rightarrow>
          Inr (w\<lparr>pc := Wait_stop_check, l_target_block := target_block s\<rparr>,
               s\<lparr>retarget_event := False\<rparr>)
      | Wait_stop_check \<Rightarrow>
          if stop_event s then Inr (w\<lparr>pc := Returned\<rparr>, s)
          else
            (case l_target_block w of
               None \<Rightarrow> Inr (w\<lparr>pc := Wait_lock\<rparr>, s)
             | Some tb \<Rightarrow>
                 (case compute_target_hash e (reduce_local_diff s) tb of
                    Inl err \<Rightarrow> Inl err
                  | Inr th \<Rightarrow>
                      Inr (w\<lparr>pc := Loop_guard,
                              l_prefix := drop_last8 (serialize_header e tb),
                              l_target_hash := th\<rparr>, s)))
      | Loop_guard \<Rightarrow>
          if retarget_event s then Inr (w\<lparr>pc := Outer_loop\<rparr>, s)
          else Inr (w\<lparr>pc := Batch\<rparr>, s)
      | Batch \<Rightarrow>
          (let w = w\<lparr>l_start_time := now, l_start_nonce := l_nonce w\<rparr> in
           case hash_batch e (l_prefix w) (l_target_hash w) 100000 (l_nonce w) of
             Inl err \<Rightarrow> Inl err
           | Inr (Exhausted n) \<Rightarrow> Inr (w\<lparr>pc := Rate_write, l_nonce := n\<rparr>, s)
           | Inr (Found n) \<Rightarrow>
               (case l_target_block w of
                  None \<Rightarrow> Inl AttributeError
                | Some tb \<Rightarrow>
                    Inr (w\<lparr>pc := Rate_write, l_nonce := n, l_target_block := None\<rparr>,
                         s\<lparr>mined_block := Some (tb\<lparr>nonce := n\<rparr>),
                           target_block := None,
                           retarget_event := True\<rparr>)))
      | Rate_write \<Rightarrow>
          if now - l_start_time w = 0 then Inl ZeroDivisionError
          else
            Inr (w\<lparr>pc := Search_stop_check\<rparr>,
                 s\<lparr>hashrate := real_of_int (l_nonce w - l_start_nonce w) / (now - l_start_time w)\<rparr>)
      | Search_stop_check \<Rightarrow>
          if stop_event s then Inr (w\<lparr>pc := Returned\<rparr>, s)
          else Inr (w\<lparr>pc := Loop_guard\<rparr>, s)
      | Returned \<Rightarrow> Inr c)"


subsection \<open>Calls of the control side, interleaved with the thread\<close>

text \<open>The methods of \<^verbatim>\<open>Miner\<close> that the control side calls while the thread runs,
  with the arguments the embedding gives them, and the state each leaves behind
  (whether it returned or raised).\<close>

datatype call =
    Call_retarget real bytes
  | Call_start_mining real bytes
  | Call_stop_mining
  | Call_get_hashrate
  | Call_get_mined_block
  | Call_set_reward_address bytes

fun control_call :: "'h collab \<Rightarrow> call \<Rightarrow> 'h miner \<Rightarrow> 'h miner" where
  "control_call e (Call_retarget now rnd) s = snd (retarget e now rnd s)"
| "control_call e (Call_start_mining now rnd) s = snd (start_mining e now rnd s)"
| "control_call e Call_stop_mining s = snd (stop_mining s)"
| "control_call e Call_get_hashrate s = snd (get_hashrate s)"
| "control_call e Call_get_mined_block s = snd (get_mined_block s)"
| "control_call e (Call_set_reward_address pk) s = set_reward_address pk s"

fun control_calls :: "'h collab \<Rightarrow> call list \<Rightarrow> 'h miner \<Rightarrow> 'h miner" where
  "control_calls e [] s = s"
| "control_calls e (c # cs) s = control_calls e cs (control_call e c s)"

subsection \<open>A concrete instance\<close>

text \<open>Collaborators small enough to evaluate: a two-byte digest whose value is the last
  byte hashed, a chain head that is the height of the block mined on top of it, a reward
  of 50 halved every 2 blocks. The theorems below hold for all collaborators; this
  instance shows that their hypotheses can be met.\<close>

definition demo_collab :: "nat collab" where
  "demo_collab =
     \<lparr>HASH_LEN = 2, INITIAL_REWARD = 50, REWARD_HALVING_LEN = 2,
      crypto_h = (\<lambda>bs. [0, last bs]),
      get_next_diff = (\<lambda>h. 11),
      get_hash = (\<lambda>h. [word_of_nat h]),
      get_height = (\<lambda>blk. case parent blk of None \<Rightarrow> 0 | Some h \<Rightarrow> h),
      serialize_header = (\<lambda>blk. prev_hash blk @ to_bytes_big 8 (nonce blk)),
      compute_merkle_root = (\<lambda>ts. [word_of_nat (length ts)])\<rparr>"

definition demo_tx :: transaction where
  "demo_tx = \<lparr>inputs = [\<lparr>index = 0\<rparr>], outputs = [\<lparr>amount = 7, out_pubkey = [1]\<rparr>]\<rparr>"

definition demo_miner :: "nat \<Rightarrow> nat miner" where
  "demo_miner h =
     Miner_init \<lparr>chain_head = h, new_block_callbacks = []\<rparr>
       \<lparr>transactions = [([5], demo_tx)], total_fees = 3, new_tx_callbacks = []\<rparr> [9] False"

definition demo_block :: "int \<Rightarrow> nat block" where
  "demo_block d = Block_new\<lparr>parent := Some 0, diff := d\<rparr>"


section \<open>Properties\<close>

subsection \<open>What the control side leaves alone\<close>

lemma retarget_cases:
  "retarget e now rnd s = (Inl ZeroDivisionError, s) \<and> REWARD_HALVING_LEN e = 0
   \<or> (\<exists>blk. retarget e now rnd s = (Inr (), s\<lparr>target_block := Some blk, retarget_event := True\<rparr>)
        \<and> REWARD_HALVING_LEN e \<noteq> 0)"
proof (cases "REWARD_HALVING_LEN e = 0")
  case True
  then show ?thesis by (simp add: retarget_def block_reward_def Let_def)
next
  case False
  then have "\<exists>blk. retarget e now rnd s =
      (Inr (), s\<lparr>target_block := Some blk, retarget_event := True\<rparr>)"
    by (simp add: retarget_def block_reward_def Let_def) blast
  with False show ?thesis by simp
qed

lemma retarget_mined_block: "mined_block (snd (retarget e now rnd s)) = mined_block s"
  using retarget_cases [of e now rnd s] by auto

lemma retarget_hashrate: "hashrate (snd (retarget e now rnd s)) = hashrate s"
  using retarget_cases [of e now rnd s] by auto

lemma start_mining_mined_block: "mined_block (snd (start_mining e now rnd s)) = mined_block s"
proof -
  let ?s1 = "s\<lparr>blockchain := register_new_block_callback (blockchain s) Retarget_callback,
               mempool := register_new_tx_callback (mempool s) Retarget_callback,
               stop_event := False, retarget_event := False\<rparr>"
  show ?thesis
    using retarget_cases [of e now rnd ?s1]
    by (auto simp: start_mining_def Let_def)
qed

lemma control_frame:
  "mined_block (snd (retarget e now rnd s)) = mined_block s"
  "mined_block (snd (start_mining e now rnd s)) = mined_block s"
  "mined_block (snd (stop_mining s)) = mined_block s"
  "mined_block (snd (get_hashrate s)) = mined_block s"
  "mined_block (snd (get_mined_block s)) = None"
  "mined_block (set_reward_address pk s) = mined_block s"
  by (simp_all add: retarget_mined_block start_mining_mined_block stop_mining_def
      get_hashrate_def get_mined_block_def set_reward_address_def Let_def)

subsection \<open>The consuming read of the mined block\<close>

text \<open>C6. \<^verbatim>\<open>get_mined_block\<close> returns the pending mined block, if there is one, and
  leaves the field empty and every other field as it was; called again at once it
  returns nothing, and so it does after any calls of the control side in between, since
  none of them publishes a block.\<close>

theorem get_mined_block_one_shot:
  "get_mined_block s = (mined_block s, s\<lparr>mined_block := None\<rparr>)
   \<and> fst (get_mined_block (snd (get_mined_block s))) = None
   \<and> fst (get_mined_block (control_calls e cs (snd (get_mined_block s)))) = None"
proof -
  have "mined_block (control_calls e cs t) = None" if "mined_block t = None" for t
    using that
  proof (induction cs arbitrary: t)
    case Nil
    then show ?case by simp
  next
    case (Cons c cs)
    have "mined_block (control_call e c t) = None"
      using Cons.prems by (cases c) (simp_all add: control_frame)
    then show ?case using Cons.IH by simp
  qed
  then show ?thesis by (simp add: get_mined_block_def)
qed

subsection \<open>What a retarget changes\<close>

text \<open>C10. \<^verbatim>\<open>retarget\<close> changes no field of the miner but \<^verbatim>\<open>target_block\<close> and the
  retarget event: \<^verbatim>\<open>mined_block\<close> and \<^verbatim>\<open>hashrate\<close> are what they were, whatever the
  state before. A retarget that returns has published a candidate and set the event; one
  that raises has changed nothing.\<close>

theorem retarget_frame:
  "snd (retarget e now rnd s) =
     s\<lparr>target_block := target_block (snd (retarget e now rnd s)),
       retarget_event := retarget_event (snd (retarget e now rnd s))\<rparr>
   \<and> mined_block (snd (retarget e now rnd s)) = mined_block s
   \<and> hashrate (snd (retarget e now rnd s)) = hashrate s
   \<and> (case fst (retarget e now rnd s) of
         Inl err \<Rightarrow> snd (retarget e now rnd s) = s
       | Inr u \<Rightarrow> target_block (snd (retarget e now rnd s)) \<noteq> None
                  \<and> retarget_event (snd (retarget e now rnd s)))"
  using retarget_cases [of e now rnd s] by auto

theorem retarget_frame_witness:
  "mined_block (snd (retarget demo_collab 0 [0,0,0,1] ((demo_miner 2)\<lparr>mined_block := Some (demo_block 11), hashrate := 5\<rparr>)))
     = Some (demo_block 11)
   \<and> hashrate (snd (retarget demo_collab 0 [0,0,0,1] ((demo_miner 2)\<lparr>mined_block := Some (demo_block 11), hashrate := 5\<rparr>))) = 5"
  using retarget_frame [of demo_collab 0 "[0,0,0,1]" "(demo_miner 2)\<lparr>mined_block := Some (demo_block 11), hashrate := 5\<rparr>"]
  by (simp add: demo_miner_def Miner_init_def)

subsection \<open>The errors of the lifecycle\<close>

lemma start_mining_running:
  "mining_thread s \<noteq> None \<Longrightarrow> start_mining e now rnd s = (Inl MinerIsRunningException, s)"
  by (simp add: start_mining_def)

lemma start_mining_idle:
  assumes "mining_thread s = None"
  shows "fst (start_mining e now rnd s) = Inl ZeroDivisionError \<and> REWARD_HALVING_LEN e = 0
       \<or> fst (start_mining e now rnd s) = Inr ()
          \<and> mining_thread (snd (start_mining e now rnd s)) = Some Miner_thread"
proof -
  let ?s1 = "s\<lparr>blockchain := register_new_block_callback (blockchain s) Retarget_callback,
               mempool := register_new_tx_callback (mempool s) Retarget_callback,
               stop_event := False, retarget_event := False\<rparr>"
  show ?thesis
    using retarget_cases [of e now rnd ?s1] assms
    by (auto simp: start_mining_def Let_def)
qed

text \<open>C5. \<^verbatim>\<open>start_mining\<close> raises \<^verbatim>\<open>MinerIsRunningException\<close> exactly when
  \<^verbatim>\<open>mining_thread\<close> is set; \<^verbatim>\<open>stop_mining\<close> and \<^verbatim>\<open>get_hashrate\<close> raise
  \<^verbatim>\<open>MinerIsNotRunningException\<close> exactly when it is not; a call that raises one of the
  two leaves the miner as it was. So a second start after a successful one fails, and a
  stop or a hashrate query on a fresh miner fails.\<close>

theorem lifecycle_errors:
  "(fst (start_mining e now rnd s) = Inl MinerIsRunningException \<longleftrightarrow> mining_thread s \<noteq> None)
   \<and> (fst (stop_mining s) = Inl MinerIsNotRunningException \<longleftrightarrow> mining_thread s = None)
   \<and> (fst (get_hashrate s) = Inl MinerIsNotRunningException \<longleftrightarrow> mining_thread s = None)
   \<and> (mining_thread s \<noteq> None \<longrightarrow> snd (start_mining e now rnd s) = s)
   \<and> (mining_thread s = None \<longrightarrow> snd (stop_mining s) = s \<and> snd (get_hashrate s) = s)
   \<and> (fst (start_mining e now rnd s) = Inr () \<longrightarrow>
        start_mining e now' rnd' (snd (start_mining e now rnd s))
          = (Inl MinerIsRunningException, snd (start_mining e now rnd s)))
   \<and> fst (stop_mining (Miner_init bc mp pk rld)) = Inl MinerIsNotRunningException
   \<and> fst (get_hashrate (Miner_init bc mp pk rld)) = Inl MinerIsNotRunningException"
proof -
  have a: "fst (start_mining e now rnd s) = Inl MinerIsRunningException \<longleftrightarrow> mining_thread s \<noteq> None"
    using start_mining_running [of s e now rnd] start_mining_idle [of s e now rnd]
    by (cases "mining_thread s = None") auto
  have b: "fst (stop_mining s) = Inl MinerIsNotRunningException \<longleftrightarrow> mining_thread s = None"
    by (simp add: stop_mining_def Let_def)
  have c: "fst (get_hashrate s) = Inl MinerIsNotRunningException \<longleftrightarrow> mining_thread s = None"
    by (simp add: get_hashrate_def)
  have d: "mining_thread s \<noteq> None \<longrightarrow> snd (start_mining e now rnd s) = s"
    by (simp add: start_mining_running)
  have f: "mining_thread s = None \<longrightarrow> snd (stop_mining s) = s \<and> snd (get_hashrate s) = s"
    by (simp add: stop_mining_def get_hashrate_def)
  have g: "fst (start_mining e now rnd s) = Inr () \<longrightarrow>
        start_mining e now' rnd' (snd (start_mining e now rnd s))
          = (Inl MinerIsRunningException, snd (start_mining e now rnd s))"
  proof
    assume ok: "fst (start_mining e now rnd s) = Inr ()"
    then have "mining_thread s = None"
      using start_mining_running [of s e now rnd] by (cases "mining_thread s = None") auto
    then have "mining_thread (snd (start_mining e now rnd s)) \<noteq> None"
      using start_mining_idle [of s e now rnd] ok by auto
    then show "start_mining e now' rnd' (snd (start_mining e now rnd s))
          = (Inl MinerIsRunningException, snd (start_mining e now rnd s))"
      by (rule start_mining_running)
  qed
  have h: "fst (stop_mining (Miner_init bc mp pk rld)) = Inl MinerIsNotRunningException"
    "fst (get_hashrate (Miner_init bc mp pk rld)) = Inl MinerIsNotRunningException"
    by (simp_all add: stop_mining_def get_hashrate_def Miner_init_def)
  from a b c d f g h show ?thesis by blast
qed

theorem lifecycle_errors_witness:
  "fst (start_mining demo_collab 0 [0,0,0,1] (demo_miner 2)) = Inr ()
   \<and> start_mining demo_collab 1 [0,0,0,2] (snd (start_mining demo_collab 0 [0,0,0,1] (demo_miner 2)))
       = (Inl MinerIsRunningException, snd (start_mining demo_collab 0 [0,0,0,1] (demo_miner 2)))
   \<and> stop_mining (demo_miner 2) = (Inl MinerIsNotRunningException, demo_miner 2)
   \<and> get_hashrate (demo_miner 2) = (Inl MinerIsNotRunningException, demo_miner 2)"
proof -
  have ok: "fst (start_mining demo_collab 0 [0,0,0,1] (demo_miner 2)) = Inr ()"
    by (simp add: start_mining_def retarget_def block_reward_def demo_collab_def
        demo_miner_def Miner_init_def Let_def)
  have idle: "mining_thread (demo_miner 2) = None"
    by (simp add: demo_miner_def Miner_init_def)
  have "stop_mining (demo_miner 2) = (fst (stop_mining (demo_miner 2)), snd (stop_mining (demo_miner 2)))"
       "get_hashrate (demo_miner 2) = (fst (get_hashrate (demo_miner 2)), snd (get_hashrate (demo_miner 2)))"
    by simp_all
  then show ?thesis
    using ok idle
      lifecycle_errors [of demo_collab 0 "[0,0,0,1]" "demo_miner 2" 1 "[0,0,0,2]"]
    by metis
qed

subsection \<open>The first candidate is there before the thread\<close>







subsection \<open>The reduced local difficulty\<close>

text \<open>C8. With \<^verbatim>\<open>reduce_local_diff\<close> the threshold is computed from
  \<open>max (d - 10) 1\<close>, where \<open>d\<close> is the candidate's difficulty; without it, from \<open>d\<close>
  itself. This is the threshold the thread stores when it leaves the wait loop.\<close>

theorem reduced_local_difficulty:
  "compute_target_hash e rld tb =
     shift_one_left (8 * int (HASH_LEN e) - (if rld then max (diff tb - 10) 1 else diff tb))
   \<and> (pc w = Wait_stop_check \<and> \<not> stop_event s \<and> l_target_block w = Some tb
        \<and> (if reduce_local_diff s then max (diff tb - 10) 1 else diff tb) \<le> 8 * int (HASH_LEN e)
      \<longrightarrow> mine_step e rnd now (w, s) =
            Inr (w\<lparr>pc := Loop_guard, l_prefix := drop_last8 (serialize_header e tb),
                   l_target_hash :=
                     2 ^ nat (8 * int (HASH_LEN e)
                              - (if reduce_local_diff s then max (diff tb - 10) 1 else diff tb))\<rparr>,
                 s))"
  by (simp add: compute_target_hash_def effective_diff_def mine_step_def shift_one_left_def)

theorem reduced_local_difficulty_witness:
  "compute_target_hash demo_collab True (demo_block 14) = Inr (2 ^ 12)
   \<and> compute_target_hash demo_collab True (demo_block 5) = Inr (2 ^ 15)
   \<and> compute_target_hash demo_collab False (demo_block 14) = Inr (2 ^ 2)
   \<and> l_target_hash (fst (projr (mine_step demo_collab [] 0
        (worker_spawn\<lparr>pc := Wait_stop_check, l_target_block := Some (demo_block 14)\<rparr>,
         (demo_miner 2)\<lparr>reduce_local_diff := True\<rparr>)))) = 2 ^ 12"
  using reduced_local_difficulty [of demo_collab True "demo_block 14"
      "worker_spawn\<lparr>pc := Wait_stop_check, l_target_block := Some (demo_block 14)\<rparr>"
      "(demo_miner 2)\<lparr>reduce_local_diff := True\<rparr>" "[]" 0]
    reduced_local_difficulty [of demo_collab True "demo_block 5"]
    reduced_local_difficulty [of demo_collab False "demo_block 14"]
  by (simp add: demo_collab_def demo_block_def Block_new_def shift_one_left_def
      worker_spawn_def demo_miner_def Miner_init_def)

subsection \<open>The candidate block\<close>

lemma candidate_body_txs: "txs (candidate_body e now s) = map snd (transactions (mempool s))"
  by (simp add: candidate_body_def Let_def add_transactions_def set_parent_def Block_new_def)

lemma retarget_ok:
  assumes "REWARD_HALVING_LEN e \<noteq> 0"
  shows "retarget e now rnd s =
    (Inr (),
     s\<lparr>target_block :=
         Some (update_merkle_root e
           ((candidate_body e now s)
              \<lparr>txs := map snd (transactions (mempool s)) @
                 [coinbase_tx
                    (INITIAL_REWARD e
                       div 2 ^ (get_height e (candidate_body e now s) div REWARD_HALVING_LEN e)
                     + total_fees (mempool s))
                    (pubkey s) rnd]\<rparr>)),
       retarget_event := True\<rparr>)"
  using assms
  by (simp add: retarget_def block_reward_def Let_def candidate_body_txs)


text \<open>C4. For a block height \<open>h\<close>, a halving interval \<open>H > 0\<close>, an initial reward \<open>R\<close>
  and total fees \<open>F\<close> of the mempool, \<^verbatim>\<open>retarget\<close> returns, and the coinbase of the
  candidate it publishes has the single output \<open>R div 2 ^ (h div H) + F\<close>, paid to the
  miner's address. (\<open>div\<close> on integers rounds down, as Python's \<^verbatim>\<open>//\<close> does.)\<close>

theorem coinbase_reward:
  assumes "0 < H"
    and "REWARD_HALVING_LEN e = H"
    and "get_height e (candidate_body e now s) = h"
    and "INITIAL_REWARD e = R"
    and "total_fees (mempool s) = F"
  shows "\<exists>blk. retarget e now rnd s =
            (Inr (), s\<lparr>target_block := Some blk, retarget_event := True\<rparr>)
          \<and> last (txs blk) = coinbase_tx (R div 2 ^ (h div H) + F) (pubkey s) rnd
          \<and> outputs (last (txs blk)) = [\<lparr>amount = R div 2 ^ (h div H) + F, out_pubkey = pubkey s\<rparr>]"
proof -
  from assms have nz: "REWARD_HALVING_LEN e \<noteq> 0" by simp
  let ?cb = "coinbase_tx (R div 2 ^ (h div H) + F) (pubkey s) rnd"
  let ?blk = "update_merkle_root e
           ((candidate_body e now s)\<lparr>txs := map snd (transactions (mempool s)) @ [?cb]\<rparr>)"
  have r: "retarget e now rnd s =
            (Inr (), s\<lparr>target_block := Some ?blk, retarget_event := True\<rparr>)"
    using retarget_ok [OF nz, of now rnd s] assms by simp
  have l: "last (txs ?blk) = ?cb"
    by (simp add: update_merkle_root_def)
  have "outputs ?cb = [\<lparr>amount = R div 2 ^ (h div H) + F, out_pubkey = pubkey s\<rparr>]"
    by (simp add: coinbase_tx_def Let_def)
  with l have o: "outputs (last (txs ?blk))
      = [\<lparr>amount = R div 2 ^ (h div H) + F, out_pubkey = pubkey s\<rparr>]"
    by simp
  from r l o show ?thesis by blast
qed

theorem coinbase_reward_witness:
  "map_option (map amount \<circ> outputs \<circ> last \<circ> txs)
     (target_block (snd (retarget demo_collab 0 [0,0,0,1] (demo_miner 0)))) = Some [50 + 3]
   \<and> map_option (map amount \<circ> outputs \<circ> last \<circ> txs)
     (target_block (snd (retarget demo_collab 0 [0,0,0,1] (demo_miner 2)))) = Some [25 + 3]
   \<and> map_option (map amount \<circ> outputs \<circ> last \<circ> txs)
     (target_block (snd (retarget demo_collab 0 [0,0,0,1] (demo_miner 5)))) = Some [12 + 3]"
proof -
  have h: "get_height demo_collab (candidate_body demo_collab 0 (demo_miner k)) = k" for k
    by (simp add: demo_collab_def candidate_body_def Let_def add_transactions_def
        set_parent_def demo_miner_def Miner_init_def)
  have c: "REWARD_HALVING_LEN demo_collab = 2" "INITIAL_REWARD demo_collab = 50"
    "total_fees (mempool (demo_miner k)) = 3" for k
    by (simp_all add: demo_collab_def demo_miner_def Miner_init_def)
  have pos: "(0::nat) < 2" by simp
  from coinbase_reward [OF pos c(1) h [of 0] c(2) c(3) [of 0], of "[0,0,0,1]"]
    coinbase_reward [OF pos c(1) h [of 2] c(2) c(3) [of 2], of "[0,0,0,1]"]
    coinbase_reward [OF pos c(1) h [of 5] c(2) c(3) [of 5], of "[0,0,0,1]"]
  show ?thesis by auto
qed




subsection \<open>Bytes and the batch of hashes\<close>











lemma hash_batch_error:
  "hash_batch e p t k n = Inl err \<Longrightarrow> err = StructError"
proof (induction k arbitrary: n)
  case 0
  then show ?case by simp
next
  case (Suc k)
  then show ?case
    by (auto simp: struct_pack_Q_def split: if_splits)
qed

subsection \<open>The threshold and the hit\<close>







subsection \<open>The nonce counter\<close>









subsection \<open>The hit\<close>







end
